theory Spec2Isabelle
  imports Main
begin

section \<open>Data model of \<open>mpc.py\<close>\<close>

text \<open>
  \<open>MPCParty\<close> and \<open>PrivateComputationRole\<close> are enumerations imported by the module.
  The role-to-party function receives an arbitrary Python value and compares it by
  identity against the two members; every other value only ever reaches the f-string of
  the \<open>else\<close> branch, so such a value is stood for by its \<open>str()\<close> rendering.
\<close>

datatype MPCParty = SERVER | CLIENT

datatype PrivateComputationRole = PUBLISHER | PARTNER | OtherValue string

text \<open>
  Exceptions the module raises itself. Every \<open>raise\<close> of the module is a
  \<open>ValueError\<close> with a message; indexing a list out of range raises \<open>IndexError\<close>.
\<close>

datatype py_error = ValueError string | IndexError string

text \<open>
  The outcome of a failing call: an exception raised by the module's own code, or an
  exception of a collaborator (of type \<open>'x\<close>) that passes through uncaught.
\<close>

datatype 'x exn = Raised py_error | Propagated 'x

text \<open>One entry of \<open>game_args\<close>: a \<open>Dict[str, Any]\<close>, in insertion order.\<close>

type_synonym 'v game_arg = "(string \<times> 'v) list"

text \<open>
  The collaborator \<open>MPCGameService\<close>: its method \<open>build_onedocker_args\<close> takes the
  game name, the party, the optional server address and the keyword arguments of one
  container, and returns \<open>(package_name, cmd_args)\<close>, two \<open>str\<close>, or raises. The
  function stands for the whole call expression, the binding of \<open>**game_arg\<close> to the
  keyword parameters included: an exception of either passes through the caller alike.
\<close>

record ('v, 'x) MPCGameService =
  build_onedocker_args ::
    "string \<Rightarrow> MPCParty \<Rightarrow> string option \<Rightarrow> 'v game_arg \<Rightarrow> 'x + (string \<times> string)"

record ('cs, 'od, 'v, 'x) MPCService =
  container_svc :: 'cs
  task_definition :: "string option"
  mpc_game_svc :: "('v, 'x) MPCGameService"
  onedocker_svc :: 'od

text \<open>The arguments of one call of \<open>build_onedocker_args\<close>, as logged in call order.\<close>

type_synonym 'v resolver_call = "string \<times> MPCParty \<times> string option \<times> 'v game_arg"

section \<open>Python primitives\<close>

text \<open>\<open>xs[i]\<close> for a non-negative index: \<open>IndexError\<close> out of range.\<close>

definition py_getitem :: "'a list \<Rightarrow> nat \<Rightarrow> py_error + 'a" where
  "py_getitem xs i =
     (if i < length xs then Inr (xs ! i) else Inl (IndexError ''list index out of range''))"

text \<open>\<open>not server_ips\<close>: true for \<open>None\<close> and for the empty list.\<close>

definition py_not :: "'a list option \<Rightarrow> bool" where
  "py_not v = (case v of None \<Rightarrow> True | Some xs \<Rightarrow> xs = [])"

text \<open>\<open>str(v)\<close> of an optional object, given the rendering of the object itself.\<close>

definition py_str :: "('a \<Rightarrow> string) \<Rightarrow> 'a option \<Rightarrow> string" where
  "py_str render v = (case v of None \<Rightarrow> ''None'' | Some a \<Rightarrow> render a)"

section \<open>\<open>MPCService.__init__\<close>\<close>

text \<open>
  The constructor takes the three arguments, each possibly \<open>None\<close>. The
  \<open>OneDockerService\<close> constructor belongs to another package and is a parameter
  \<open>mk_onedocker\<close>; \<open>str_cs\<close> and \<open>str_gs\<close> render the two objects inside the f-string.
  The logger takes no part in any result and is left out.
\<close>

definition MPCService_init ::
  "('cs \<Rightarrow> string option \<Rightarrow> 'x + 'od) \<Rightarrow> ('cs \<Rightarrow> string) \<Rightarrow> (('v, 'x) MPCGameService \<Rightarrow> string) \<Rightarrow>
   'cs option \<Rightarrow> string option \<Rightarrow> ('v, 'x) MPCGameService option \<Rightarrow>
   'x exn + ('cs, 'od, 'v, 'x) MPCService" where
  "MPCService_init mk_onedocker str_cs str_gs container_svc_arg task_definition_arg mpc_game_svc_arg =
     (if container_svc_arg = None \<or> mpc_game_svc_arg = None then
        Inl (Raised (ValueError
          (''Dependency is missing. container_svc='' @ py_str str_cs container_svc_arg
            @ '', mpc_game_svc='' @ py_str str_gs mpc_game_svc_arg)))
      else
        (case mk_onedocker (the container_svc_arg) task_definition_arg of
           Inl x \<Rightarrow> Inl (Propagated x)
         | Inr od \<Rightarrow>
             Inr \<lparr>container_svc = the container_svc_arg, task_definition = task_definition_arg,
                  mpc_game_svc = the mpc_game_svc_arg, onedocker_svc = od\<rparr>))"

section \<open>\<open>MPCService.convert_cmd_args_list\<close>\<close>

text \<open>\<open>server_ips[i] if server_ips is not None else None\<close>.\<close>

definition server_ip_at :: "string list option \<Rightarrow> nat \<Rightarrow> py_error + string option" where
  "server_ip_at server_ips i =
     (case server_ips of
        None \<Rightarrow> Inr None
      | Some ips \<Rightarrow> (case py_getitem ips i of Inl e \<Rightarrow> Inl e | Inr ip \<Rightarrow> Inr (Some ip)))"

text \<open>
  The \<open>for i in range(len(game_args))\<close> loop, run over the remaining indices. The loop
  state is \<open>binary_name\<close>, \<open>cmd_args_list\<close> and the log of the calls made to
  \<open>build_onedocker_args\<close> so far. An exception ends the loop at once. Inside the loop
  \<open>game_args\<close> is a list, so \<open>game_args[i] if game_args is not None else {}\<close> is
  \<open>game_args[i]\<close>.
\<close>

fun convert_loop ::
  "('v, 'x) MPCGameService \<Rightarrow> string \<Rightarrow> 'v game_arg list \<Rightarrow> MPCParty \<Rightarrow> string list option \<Rightarrow>
   nat list \<Rightarrow> string option \<Rightarrow> string list \<Rightarrow> 'v resolver_call list \<Rightarrow>
   'v resolver_call list \<times> ('x exn + (string option \<times> string list))" where
  "convert_loop gs game_name game_args mpc_party server_ips [] binary_name cmd_args_list calls =
     (calls, Inr (binary_name, cmd_args_list))"
| "convert_loop gs game_name game_args mpc_party server_ips (i # rest) binary_name cmd_args_list calls =
     (case py_getitem game_args i of
        Inl e \<Rightarrow> (calls, Inl (Raised e))
      | Inr game_arg \<Rightarrow>
          (case server_ip_at server_ips i of
             Inl e \<Rightarrow> (calls, Inl (Raised e))
           | Inr server_ip \<Rightarrow>
               (case build_onedocker_args gs game_name mpc_party server_ip game_arg of
                  Inl x \<Rightarrow>
                    (calls @ [(game_name, mpc_party, server_ip, game_arg)], Inl (Propagated x))
                | Inr (package_name, cmd_args) \<Rightarrow>
                    convert_loop gs game_name game_args mpc_party server_ips rest
                      (case binary_name of None \<Rightarrow> Some package_name | Some b \<Rightarrow> Some b)
                      (cmd_args_list @ [cmd_args])
                      (calls @ [(game_name, mpc_party, server_ip, game_arg)]))))"

text \<open>
  The method itself: the two guards, the loop from \<open>binary_name = None\<close> and the empty
  list, and the check of \<open>binary_name\<close> after the loop. \<open>game_args\<close> has its declared
  type \<open>List\<close>, so \<open>not game_args\<close> tests emptiness. The result pairs the log of
  resolver calls with the outcome.
\<close>

definition convert_cmd_args_list ::
  "('cs, 'od, 'v, 'x) MPCService \<Rightarrow> string \<Rightarrow> 'v game_arg list \<Rightarrow> MPCParty \<Rightarrow> string list option \<Rightarrow>
   'v resolver_call list \<times> ('x exn + (string \<times> string list))" where
  "convert_cmd_args_list self game_name game_args mpc_party server_ips =
     (if game_args = [] then
        ([], Inl (Raised (ValueError ''Missing game_args or it's empty'')))
      else if mpc_party = CLIENT \<and> py_not server_ips then
        ([], Inl (Raised (ValueError ''Missing server_ips'')))
      else
        (case convert_loop (mpc_game_svc self) game_name game_args mpc_party server_ips
                [0..<length game_args] None [] [] of
           (calls, Inl e) \<Rightarrow> (calls, Inl e)
         | (calls, Inr (None, cmd_args_list)) \<Rightarrow>
             (calls, Inl (Raised (ValueError ''Can't get binary_name from game_args'')))
         | (calls, Inr (Some binary_name, cmd_args_list)) \<Rightarrow>
             (calls, Inr (binary_name, cmd_args_list))))"

section \<open>\<open>map_private_computation_role_to_mpc_party\<close>\<close>

fun map_private_computation_role_to_mpc_party :: "PrivateComputationRole \<Rightarrow> py_error + MPCParty" where
  "map_private_computation_role_to_mpc_party PUBLISHER = Inr SERVER"
| "map_private_computation_role_to_mpc_party PARTNER = Inr CLIENT"
| "map_private_computation_role_to_mpc_party (OtherValue s) =
     Inl (ValueError (''No mpc party defined for '' @ s))"

section \<open>Vocabulary of the properties\<close>

text \<open>The address container \<open>i\<close> gets: \<open>server_ips[i]\<close> when the list is present.\<close>

definition address_at :: "string list option \<Rightarrow> nat \<Rightarrow> string option" where
  "address_at server_ips i = (case server_ips of None \<Rightarrow> None | Some ips \<Rightarrow> Some (ips ! i))"

definition address_in_range :: "string list option \<Rightarrow> nat \<Rightarrow> bool" where
  "address_in_range server_ips i = (case server_ips of None \<Rightarrow> True | Some ips \<Rightarrow> i < length ips)"

text \<open>The outcome of the resolver on container \<open>i\<close>, and the call that produces it.\<close>

definition resolve_at ::
  "('v, 'x) MPCGameService \<Rightarrow> string \<Rightarrow> 'v game_arg list \<Rightarrow> MPCParty \<Rightarrow> string list option \<Rightarrow> nat \<Rightarrow>
   'x + (string \<times> string)" where
  "resolve_at gs game_name game_args mpc_party server_ips i =
     build_onedocker_args gs game_name mpc_party (address_at server_ips i) (game_args ! i)"

definition call_at ::
  "string \<Rightarrow> 'v game_arg list \<Rightarrow> MPCParty \<Rightarrow> string list option \<Rightarrow> nat \<Rightarrow> 'v resolver_call" where
  "call_at game_name game_args mpc_party server_ips i =
     (game_name, mpc_party, address_at server_ips i, game_args ! i)"

text \<open>Container \<open>i\<close> exists, has an address when addresses are given, and resolves.\<close>

definition resolves_at ::
  "('v, 'x) MPCGameService \<Rightarrow> string \<Rightarrow> 'v game_arg list \<Rightarrow> MPCParty \<Rightarrow> string list option \<Rightarrow> nat \<Rightarrow> bool" where
  "resolves_at gs game_name game_args mpc_party server_ips i =
     (i < length game_args \<and> address_in_range server_ips i \<and>
      \<not> isl (resolve_at gs game_name game_args mpc_party server_ips i))"

text \<open>The value of \<open>binary_name\<close> after the loop has run over the indices \<open>pre\<close>.\<close>

definition binary_after ::
  "('v, 'x) MPCGameService \<Rightarrow> string \<Rightarrow> 'v game_arg list \<Rightarrow> MPCParty \<Rightarrow> string list option \<Rightarrow>
   string option \<Rightarrow> nat list \<Rightarrow> string option" where
  "binary_after gs gn gas p ips bn pre =
     (case bn of Some b \<Rightarrow> Some b
      | None \<Rightarrow> (case pre of [] \<Rightarrow> None | i # _ \<Rightarrow> Some (fst (projr (resolve_at gs gn gas p ips i)))))"

section \<open>A sample game service\<close>

text \<open>
  A resolver to run the method on: it raises the value of the argument \<open>fail\<close> when
  there is one, takes the package name from the argument \<open>package\<close> (the game name
  without it), and renders the address and the arguments as the command line.
\<close>

definition example_build ::
  "string \<Rightarrow> MPCParty \<Rightarrow> string option \<Rightarrow> string game_arg \<Rightarrow> string + (string \<times> string)" where
  "example_build game_name mpc_party server_ip game_arg =
     (case map_of game_arg ''fail'' of
        Some msg \<Rightarrow> Inl msg
      | None \<Rightarrow>
          Inr (case map_of game_arg ''package'' of Some pk \<Rightarrow> pk | None \<Rightarrow> game_name,
               (case server_ip of None \<Rightarrow> ''--party'' | Some ip \<Rightarrow> ''--server_ip='' @ ip)
                 @ concat (map (\<lambda>(k, v). '' --'' @ k @ ''='' @ v) game_arg)))"

definition example_game_svc :: "(string, string) MPCGameService" where
  "example_game_svc = \<lparr>build_onedocker_args = example_build\<rparr>"

definition example_onedocker :: "string \<Rightarrow> string option \<Rightarrow> string + (string \<times> string option)" where
  "example_onedocker cs td = Inr (cs, td)"

definition example_service :: "(string, string \<times> string option, string, string) MPCService" where
  "example_service =
     \<lparr>container_svc = ''ecs'', task_definition = Some ''task'',
      mpc_game_svc = example_game_svc, onedocker_svc = (''ecs'', Some ''task'')\<rparr>"

definition two_containers :: "string game_arg list" where
  "two_containers = [[(''input_filenames'', ''f1'')],
                     [(''input_filenames'', ''f2''), (''package'', ''other'')]]"

definition failing_second :: "string game_arg list" where
  "failing_second = [[(''input_filenames'', ''f1'')], [(''fail'', ''unknown argument'')],
                     [(''input_filenames'', ''f3'')]]"

definition container_str :: "string \<Rightarrow> string" where
  "container_str cs = cs"

definition game_svc_str :: "(string, string) MPCGameService \<Rightarrow> string" where
  "game_svc_str gs = ''MPCGameService''"

section \<open>The loop, step by step\<close>

lemma server_ip_at_ok:
  "address_in_range server_ips i \<Longrightarrow> server_ip_at server_ips i = Inr (address_at server_ips i)"
  by (cases server_ips)
    (simp_all add: address_in_range_def server_ip_at_def address_at_def py_getitem_def)

lemma server_ip_at_bad:
  "\<not> address_in_range server_ips i \<Longrightarrow>
   server_ip_at server_ips i = Inl (IndexError ''list index out of range'')"
  by (cases server_ips) (simp_all add: address_in_range_def server_ip_at_def py_getitem_def)

lemma resolves_atE:
  assumes "resolves_at gs gn gas p ips i"
  obtains pkg cmd where "i < length gas" "address_in_range ips i"
    "resolve_at gs gn gas p ips i = Inr (pkg, cmd)"
  using assms by (cases "resolve_at gs gn gas p ips i") (auto simp: resolves_at_def)

lemma convert_loop_step:
  assumes "i < length gas" "address_in_range ips i" "resolve_at gs gn gas p ips i = Inr (pkg, cmd)"
  shows "convert_loop gs gn gas p ips (i # rest) bn cmds calls =
         convert_loop gs gn gas p ips rest
           (case bn of None \<Rightarrow> Some pkg | Some b \<Rightarrow> Some b)
           (cmds @ [cmd]) (calls @ [call_at gn gas p ips i])"
  using assms by (simp add: py_getitem_def server_ip_at_ok resolve_at_def call_at_def)

lemma convert_loop_fail_step:
  assumes "i < length gas" "address_in_range ips i" "resolve_at gs gn gas p ips i = Inl x"
  shows "convert_loop gs gn gas p ips (i # rest) bn cmds calls =
         (calls @ [call_at gn gas p ips i], Inl (Propagated x))"
  using assms by (simp add: py_getitem_def server_ip_at_ok resolve_at_def call_at_def)

lemma convert_loop_index_step:
  assumes "i < length gas" "\<not> address_in_range ips i"
  shows "convert_loop gs gn gas p ips (i # rest) bn cmds calls =
         (calls, Inl (Raised (IndexError ''list index out of range'')))"
  using assms by (simp add: py_getitem_def server_ip_at_bad)

lemma convert_loop_prefix:
  assumes "\<forall>i\<in>set pre. resolves_at gs gn gas p ips i"
  shows "convert_loop gs gn gas p ips (pre @ rest) bn cmds calls =
         convert_loop gs gn gas p ips rest
           (binary_after gs gn gas p ips bn pre)
           (cmds @ map (\<lambda>i. snd (projr (resolve_at gs gn gas p ips i))) pre)
           (calls @ map (call_at gn gas p ips) pre)"
  using assms
proof (induction pre arbitrary: bn cmds calls)
  case Nil
  then show ?case by (cases bn) (simp_all add: binary_after_def)
next
  case (Cons i pre)
  then have ok: "resolves_at gs gn gas p ips i"
    and rest: "\<forall>j\<in>set pre. resolves_at gs gn gas p ips j"
    by simp_all
  from ok obtain pkg cmd where i: "i < length gas" "address_in_range ips i"
    and r: "resolve_at gs gn gas p ips i = Inr (pkg, cmd)"
    by (rule resolves_atE)
  show ?case
    using Cons.IH [OF rest]
    by (cases bn)
      (simp_all add: convert_loop_step [OF i r] r binary_after_def del: convert_loop.simps)
qed

lemma convert_loop_Inr_D:
  assumes "convert_loop gs gn gas p ips idxs bn cmds calls = (calls', Inr r)"
  shows "\<forall>i\<in>set idxs. resolves_at gs gn gas p ips i"
  using assms
proof (induction idxs arbitrary: bn cmds calls)
  case Nil
  then show ?case by simp
next
  case (Cons i idxs)
  show ?case
  proof (cases "resolves_at gs gn gas p ips i")
    case True
    then obtain pkg cmd where i: "i < length gas" "address_in_range ips i"
      and r: "resolve_at gs gn gas p ips i = Inr (pkg, cmd)"
      by (rule resolves_atE)
    from Cons.prems Cons.IH True show ?thesis
      by (simp add: convert_loop_step [OF i r] del: convert_loop.simps)
  next
    case False
    show ?thesis
    proof (cases "i < length gas")
      case False
      with Cons.prems show ?thesis by (simp add: py_getitem_def)
    next
      case inb: True
      show ?thesis
      proof (cases "address_in_range ips i")
        case False
        with inb Cons.prems show ?thesis
          by (simp add: convert_loop_index_step del: convert_loop.simps)
      next
        case True
        with inb \<open>\<not> resolves_at gs gn gas p ips i\<close>
        obtain x where "resolve_at gs gn gas p ips i = Inl x"
          by (cases "resolve_at gs gn gas p ips i") (auto simp: resolves_at_def)
        with inb True Cons.prems show ?thesis
          by (simp add: convert_loop_fail_step del: convert_loop.simps)
      qed
    qed
  qed
qed

text \<open>The loop itself never raises a \<open>ValueError\<close>.\<close>

lemma convert_loop_Inl_D:
  assumes "convert_loop gs gn gas p ips idxs bn cmds calls = (calls', Inl e)"
  shows "e \<noteq> Raised (ValueError msg)"
  using assms
proof (induction idxs arbitrary: bn cmds calls)
  case Nil
  then show ?case by simp
next
  case (Cons i idxs)
  then show ?case
    by (auto simp: py_getitem_def server_ip_at_def split: if_splits sum.splits option.splits)
qed

lemma upt_split_at: "i < n \<Longrightarrow> [0..<n] = [0..<i] @ i # [Suc i..<n]"
  using upt_add_eq_append [of 0 i "n - i"] by (simp add: upt_conv_Cons)

section \<open>The method as a whole\<close>

lemma convert_success:
  assumes ne: "gas \<noteq> []" and guard: "\<not> (p = CLIENT \<and> py_not ips)"
    and ok: "\<forall>i<length gas. resolves_at (mpc_game_svc self) gn gas p ips i"
  shows "convert_cmd_args_list self gn gas p ips =
           (map (call_at gn gas p ips) [0..<length gas],
            Inr (fst (projr (resolve_at (mpc_game_svc self) gn gas p ips 0)),
                 map (\<lambda>i. snd (projr (resolve_at (mpc_game_svc self) gn gas p ips i)))
                   [0..<length gas]))"
proof -
  from ok have all: "\<forall>i\<in>set [0..<length gas]. resolves_at (mpc_game_svc self) gn gas p ips i"
    by simp
  from ne have hd: "[0..<length gas] = 0 # [1..<length gas]"
    by (simp add: upt_conv_Cons)
  have b: "binary_after (mpc_game_svc self) gn gas p ips None [0..<length gas] =
             Some (fst (projr (resolve_at (mpc_game_svc self) gn gas p ips 0)))"
    by (subst hd) (simp add: binary_after_def)
  show ?thesis
    using convert_loop_prefix [OF all, of "[]" None "[]" "[]"] ne guard
    by (simp add: convert_cmd_args_list_def b)
qed

lemma convert_Inr_D:
  assumes "convert_cmd_args_list self gn gas p ips = (calls, Inr r)"
  shows "gas \<noteq> [] \<and> \<not> (p = CLIENT \<and> py_not ips) \<and>
         (\<forall>i<length gas. resolves_at (mpc_game_svc self) gn gas p ips i)"
proof -
  from assms have ne: "gas \<noteq> []" and guard: "\<not> (p = CLIENT \<and> py_not ips)"
    by (auto simp: convert_cmd_args_list_def split: if_splits)
  with assms obtain bn cmds where
    "convert_loop (mpc_game_svc self) gn gas p ips [0..<length gas] None [] [] =
       (calls, Inr (bn, cmds))"
    by (auto simp: convert_cmd_args_list_def
        split: if_splits prod.splits sum.splits option.splits)
  from convert_loop_Inr_D [OF this] ne guard show ?thesis by simp
qed

text \<open>Evaluation of the sample inputs.\<close>

lemmas example_defs =
  convert_cmd_args_list_def py_getitem_def py_not_def server_ip_at_def
  example_service_def example_game_svc_def example_build_def upt_rec

section \<open>Properties\<close>

text \<open>
  C1. A call that returns \<open>(binary_name, commands)\<close> was given at least one container
  and returns exactly one command per entry of \<open>game_args\<close>, in input order: command
  \<open>i\<close> is the command the resolver returns for \<open>game_args[i]\<close>, called with the
  address \<open>server_ips[i]\<close> when \<open>server_ips\<close> is present (the index is then in
  range) and with no address otherwise.
\<close>

theorem convert_commands_aligned:
  assumes "convert_cmd_args_list self game_name game_args mpc_party server_ips =
             (calls, Inr (binary_name, commands))"
  shows "1 \<le> length game_args \<and> length commands = length game_args \<and>
         (\<forall>i<length game_args.
            address_in_range server_ips i \<and>
            (\<exists>package_name.
               build_onedocker_args (mpc_game_svc self) game_name mpc_party
                 (address_at server_ips i) (game_args ! i) = Inr (package_name, commands ! i)))"
proof -
  let ?gs = "mpc_game_svc self"
  from convert_Inr_D [OF assms]
  have ne: "game_args \<noteq> []" and guard: "\<not> (mpc_party = CLIENT \<and> py_not server_ips)"
    and ok: "\<forall>i<length game_args. resolves_at ?gs game_name game_args mpc_party server_ips i"
    by simp_all
  from convert_success [OF ne guard ok] assms
  have cmds: "commands =
      map (\<lambda>i. snd (projr (resolve_at ?gs game_name game_args mpc_party server_ips i)))
        [0..<length game_args]"
    by simp
  have "address_in_range server_ips i \<and>
        (\<exists>package_name.
           build_onedocker_args ?gs game_name mpc_party
             (address_at server_ips i) (game_args ! i) = Inr (package_name, commands ! i))"
    if "i < length game_args" for i
  proof -
    from ok that have "resolves_at ?gs game_name game_args mpc_party server_ips i" by simp
    then obtain pkg cmd where "address_in_range server_ips i"
      and r: "resolve_at ?gs game_name game_args mpc_party server_ips i = Inr (pkg, cmd)"
      by (rule resolves_atE)
    moreover from that r have "commands ! i = cmd" by (simp add: cmds)
    ultimately show ?thesis by (auto simp: resolve_at_def)
  qed
  with ne cmds show ?thesis by (simp add: Suc_le_eq)
qed

theorem convert_commands_aligned_witness:
  "convert_cmd_args_list example_service ''lift'' two_containers CLIENT
        (Some [''10.0.0.1'', ''10.0.0.2'']) =
   ([(''lift'', CLIENT, Some ''10.0.0.1'', [(''input_filenames'', ''f1'')]),
     (''lift'', CLIENT, Some ''10.0.0.2'', [(''input_filenames'', ''f2''), (''package'', ''other'')])],
    Inr (''lift'',
       [''--server_ip=10.0.0.1 --input_filenames=f1'',
        ''--server_ip=10.0.0.2 --input_filenames=f2 --package=other''])) \<and>
   length [''--server_ip=10.0.0.1 --input_filenames=f1'',
        ''--server_ip=10.0.0.2 --input_filenames=f2 --package=other''] = length two_containers \<and>
   (\<exists>package_name. example_build ''lift'' CLIENT (Some ''10.0.0.1'') (two_containers ! 0) =
      Inr (package_name, ''--server_ip=10.0.0.1 --input_filenames=f1'')) \<and>
   (\<exists>package_name. example_build ''lift'' CLIENT (Some ''10.0.0.2'') (two_containers ! 1) =
      Inr (package_name, ''--server_ip=10.0.0.2 --input_filenames=f2 --package=other''))"
proof -
  have h: "convert_cmd_args_list example_service ''lift'' two_containers CLIENT
        (Some [''10.0.0.1'', ''10.0.0.2'']) =
   ([(''lift'', CLIENT, Some ''10.0.0.1'', [(''input_filenames'', ''f1'')]),
     (''lift'', CLIENT, Some ''10.0.0.2'', [(''input_filenames'', ''f2''), (''package'', ''other'')])],
    Inr (''lift'',
       [''--server_ip=10.0.0.1 --input_filenames=f1'',
        ''--server_ip=10.0.0.2 --input_filenames=f2 --package=other'']))"
    by (simp add: example_defs two_containers_def)
  have two: "length two_containers = Suc (Suc 0)" by (simp add: two_containers_def)
  from convert_commands_aligned [OF h] h show ?thesis
    by (simp add: two All_less_Suc address_at_def example_service_def example_game_svc_def)
qed

text \<open>
  C2. The returned \<open>binary_name\<close> is the package name the resolver returned for
  container 0. The package names of the later containers take no part: whenever the
  guards pass and every resolver call returns, whatever package names the calls return,
  the call succeeds with the package name of container 0.
\<close>

theorem binary_name_first_wins:
  "(convert_cmd_args_list self game_name game_args mpc_party server_ips =
      (calls, Inr (binary_name, commands)) \<longrightarrow>
    (\<exists>cmd0. build_onedocker_args (mpc_game_svc self) game_name mpc_party
               (address_at server_ips 0) (game_args ! 0) = Inr (binary_name, cmd0))) \<and>
   (game_args \<noteq> [] \<and> \<not> (mpc_party = CLIENT \<and> py_not server_ips) \<and>
    (\<forall>i<length game_args.
       resolves_at (mpc_game_svc self) game_name game_args mpc_party server_ips i) \<and>
    build_onedocker_args (mpc_game_svc self) game_name mpc_party
      (address_at server_ips 0) (game_args ! 0) = Inr (package_name0, cmd_args0) \<longrightarrow>
    (\<exists>calls' commands'.
       convert_cmd_args_list self game_name game_args mpc_party server_ips =
         (calls', Inr (package_name0, commands'))))"
proof (intro conjI impI)
  let ?gs = "mpc_game_svc self"
  assume res: "convert_cmd_args_list self game_name game_args mpc_party server_ips =
      (calls, Inr (binary_name, commands))"
  from convert_Inr_D [OF res]
  have ne: "game_args \<noteq> []" and guard: "\<not> (mpc_party = CLIENT \<and> py_not server_ips)"
    and ok: "\<forall>i<length game_args. resolves_at ?gs game_name game_args mpc_party server_ips i"
    by simp_all
  from convert_success [OF ne guard ok] res
  have b: "binary_name = fst (projr (resolve_at ?gs game_name game_args mpc_party server_ips 0))"
    by simp
  from ne ok have "resolves_at ?gs game_name game_args mpc_party server_ips 0" by simp
  then obtain pkg cmd where
    "resolve_at ?gs game_name game_args mpc_party server_ips 0 = Inr (pkg, cmd)"
    by (rule resolves_atE)
  with b show "\<exists>cmd0. build_onedocker_args ?gs game_name mpc_party
               (address_at server_ips 0) (game_args ! 0) = Inr (binary_name, cmd0)"
    by (auto simp: resolve_at_def)
next
  let ?gs = "mpc_game_svc self"
  assume a: "game_args \<noteq> [] \<and> \<not> (mpc_party = CLIENT \<and> py_not server_ips) \<and>
    (\<forall>i<length game_args.
       resolves_at (mpc_game_svc self) game_name game_args mpc_party server_ips i) \<and>
    build_onedocker_args (mpc_game_svc self) game_name mpc_party
      (address_at server_ips 0) (game_args ! 0) = Inr (package_name0, cmd_args0)"
  then have ne: "game_args \<noteq> []" and guard: "\<not> (mpc_party = CLIENT \<and> py_not server_ips)"
    and ok: "\<forall>i<length game_args. resolves_at ?gs game_name game_args mpc_party server_ips i"
    and r0: "resolve_at ?gs game_name game_args mpc_party server_ips 0 =
               Inr (package_name0, cmd_args0)"
    by (simp_all add: resolve_at_def)
  from convert_success [OF ne guard ok] r0
  show "\<exists>calls' commands'.
       convert_cmd_args_list self game_name game_args mpc_party server_ips =
         (calls', Inr (package_name0, commands'))"
    by simp
qed

theorem binary_name_first_wins_witness:
  "convert_cmd_args_list example_service ''lift'' two_containers CLIENT
        (Some [''10.0.0.1'', ''10.0.0.2'']) =
   ([(''lift'', CLIENT, Some ''10.0.0.1'', [(''input_filenames'', ''f1'')]),
     (''lift'', CLIENT, Some ''10.0.0.2'', [(''input_filenames'', ''f2''), (''package'', ''other'')])],
    Inr (''lift'',
       [''--server_ip=10.0.0.1 --input_filenames=f1'',
        ''--server_ip=10.0.0.2 --input_filenames=f2 --package=other''])) \<and>
   example_build ''lift'' CLIENT (Some ''10.0.0.1'') (two_containers ! 0) =
     Inr (''lift'', ''--server_ip=10.0.0.1 --input_filenames=f1'') \<and>
   example_build ''lift'' CLIENT (Some ''10.0.0.2'') (two_containers ! 1) =
     Inr (''other'', ''--server_ip=10.0.0.2 --input_filenames=f2 --package=other'') \<and>
   two_containers \<noteq> [] \<and> \<not> py_not (Some [''10.0.0.1'', ''10.0.0.2'']) \<and>
   resolves_at example_game_svc ''lift'' two_containers CLIENT (Some [''10.0.0.1'', ''10.0.0.2'']) 0 \<and>
   resolves_at example_game_svc ''lift'' two_containers CLIENT (Some [''10.0.0.1'', ''10.0.0.2'']) 1"
proof -
  have h: "convert_cmd_args_list example_service ''lift'' two_containers CLIENT
        (Some [''10.0.0.1'', ''10.0.0.2'']) =
   ([(''lift'', CLIENT, Some ''10.0.0.1'', [(''input_filenames'', ''f1'')]),
     (''lift'', CLIENT, Some ''10.0.0.2'', [(''input_filenames'', ''f2''), (''package'', ''other'')])],
    Inr (''lift'',
       [''--server_ip=10.0.0.1 --input_filenames=f1'',
        ''--server_ip=10.0.0.2 --input_filenames=f2 --package=other'']))"
    by (simp add: example_defs two_containers_def)
  have r: "resolves_at example_game_svc ''lift'' two_containers CLIENT (Some [''10.0.0.1'', ''10.0.0.2'']) 0"
    "resolves_at example_game_svc ''lift'' two_containers CLIENT (Some [''10.0.0.1'', ''10.0.0.2'']) 1"
    by (simp_all add: resolves_at_def resolve_at_def address_at_def address_in_range_def
        example_game_svc_def example_build_def two_containers_def)
  have e: "example_build ''lift'' CLIENT (Some ''10.0.0.1'') (two_containers ! 0) =
     Inr (''lift'', ''--server_ip=10.0.0.1 --input_filenames=f1'')"
    "example_build ''lift'' CLIENT (Some ''10.0.0.2'') (two_containers ! 1) =
     Inr (''other'', ''--server_ip=10.0.0.2 --input_filenames=f2 --package=other'')"
    by (simp_all add: example_build_def two_containers_def)
  from binary_name_first_wins [of example_service "''lift''" two_containers CLIENT
      "Some [''10.0.0.1'', ''10.0.0.2'']"
      "[(''lift'', CLIENT, Some ''10.0.0.1'', [(''input_filenames'', ''f1'')]),
        (''lift'', CLIENT, Some ''10.0.0.2'', [(''input_filenames'', ''f2''), (''package'', ''other'')])]"
      "''lift''"
      "[''--server_ip=10.0.0.1 --input_filenames=f1'',
        ''--server_ip=10.0.0.2 --input_filenames=f2 --package=other'']"
      "''lift''" "''--server_ip=10.0.0.1 --input_filenames=f1''"]
    h r e
  show ?thesis by (simp add: py_not_def two_containers_def)
qed

text \<open>
  C3, as stated, asks that a client call with fewer addresses than containers fails
  before any resolver call. With two containers and one address the resolver is called
  for container 0 first, and the call then fails with \<open>IndexError\<close> on
  \<open>server_ips[1]\<close>.
\<close>

theorem short_server_ips_counterexample:
  "length [''10.0.0.1''] < length two_containers \<and>
   convert_cmd_args_list example_service ''lift'' two_containers CLIENT (Some [''10.0.0.1'']) =
     ([(''lift'', CLIENT, Some ''10.0.0.1'', [(''input_filenames'', ''f1'')])],
      Inl (Raised (IndexError ''list index out of range''))) \<and>
   fst (convert_cmd_args_list example_service ''lift'' two_containers CLIENT
          (Some [''10.0.0.1''])) \<noteq> []"
  by (simp add: example_defs two_containers_def)

text \<open>
  C3, amended. A client call with fewer addresses than containers never returns a
  result, so no truncated output exists. With an empty address list it fails with the
  \<open>ValueError\<close> for missing addresses before any resolver call. With a non-empty one,
  when the resolver returns for each container that has an address, those calls are made
  in order and the call fails with \<open>IndexError\<close> at the first container without
  one.
\<close>

theorem short_server_ips_fails:
  assumes "length ips < length game_args"
  shows "isl (snd (convert_cmd_args_list self game_name game_args CLIENT (Some ips))) \<and>
         (ips = [] \<longrightarrow>
            convert_cmd_args_list self game_name game_args CLIENT (Some ips) =
              ([], Inl (Raised (ValueError ''Missing server_ips'')))) \<and>
         (ips \<noteq> [] \<and>
          (\<forall>i<length ips.
             \<not> isl (resolve_at (mpc_game_svc self) game_name game_args CLIENT (Some ips) i)) \<longrightarrow>
            convert_cmd_args_list self game_name game_args CLIENT (Some ips) =
              (map (call_at game_name game_args CLIENT (Some ips)) [0..<length ips],
               Inl (Raised (IndexError ''list index out of range''))))"
proof (intro conjI impI)
  let ?gs = "mpc_game_svc self"
  let ?res = "convert_cmd_args_list self game_name game_args CLIENT (Some ips)"
  show "isl (snd ?res)"
  proof (rule ccontr)
    assume "\<not> isl (snd ?res)"
    then obtain calls r where "?res = (calls, Inr r)"
      by (cases ?res, cases "snd ?res") auto
    from convert_Inr_D [OF this] assms
    have "resolves_at ?gs game_name game_args CLIENT (Some ips) (length ips)" by simp
    then show False by (simp add: resolves_at_def address_in_range_def)
  qed
next
  assume "ips = []"
  with assms show "convert_cmd_args_list self game_name game_args CLIENT (Some ips) =
              ([], Inl (Raised (ValueError ''Missing server_ips'')))"
    by (auto simp: convert_cmd_args_list_def py_not_def)
next
  let ?gs = "mpc_game_svc self"
  assume a: "ips \<noteq> [] \<and>
          (\<forall>i<length ips.
             \<not> isl (resolve_at (mpc_game_svc self) game_name game_args CLIENT (Some ips) i))"
  with assms have pre: "\<forall>i\<in>set [0..<length ips].
      resolves_at ?gs game_name game_args CLIENT (Some ips) i"
    by (simp add: resolves_at_def address_in_range_def)
  have bad: "\<not> address_in_range (Some ips) (length ips)"
    by (simp add: address_in_range_def)
  have "convert_loop ?gs game_name game_args CLIENT (Some ips) [0..<length game_args] None [] [] =
        (map (call_at game_name game_args CLIENT (Some ips)) [0..<length ips],
         Inl (Raised (IndexError ''list index out of range'')))"
    by (subst upt_split_at [OF assms])
      (simp add: convert_loop_prefix [OF pre] convert_loop_index_step [OF assms bad]
        del: convert_loop.simps)
  with a assms show "convert_cmd_args_list self game_name game_args CLIENT (Some ips) =
              (map (call_at game_name game_args CLIENT (Some ips)) [0..<length ips],
               Inl (Raised (IndexError ''list index out of range'')))"
    by (auto simp: convert_cmd_args_list_def py_not_def)
qed

theorem short_server_ips_fails_witness:
  "length [''10.0.0.1''] < length two_containers \<and> [''10.0.0.1''] \<noteq> [] \<and>
   \<not> isl (resolve_at example_game_svc ''lift'' two_containers CLIENT (Some [''10.0.0.1'']) 0) \<and>
   isl (snd (convert_cmd_args_list example_service ''lift'' two_containers CLIENT
               (Some [''10.0.0.1'']))) \<and>
   convert_cmd_args_list example_service ''lift'' two_containers CLIENT (Some [''10.0.0.1'']) =
     ([(''lift'', CLIENT, Some ''10.0.0.1'', [(''input_filenames'', ''f1'')])],
      Inl (Raised (IndexError ''list index out of range'')))"
proof -
  have len: "length [''10.0.0.1''] < length two_containers"
    by (simp add: two_containers_def)
  have r: "\<not> isl (resolve_at example_game_svc ''lift'' two_containers CLIENT (Some [''10.0.0.1'']) 0)"
    by (simp add: resolve_at_def address_at_def example_game_svc_def example_build_def
        two_containers_def)
  from short_server_ips_fails [OF len, of example_service "''lift''"] len r
  show ?thesis
    by (simp add: example_service_def call_at_def address_at_def two_containers_def)
qed

text \<open>
  C4. With an empty \<open>game_args\<close> list the call fails with the \<open>ValueError\<close> for missing
  game arguments, whatever the service, game name, party and \<open>server_ips\<close> are, and the
  log of resolver calls is empty: no call was made and no result is returned.
\<close>

theorem convert_empty_game_args_fails:
  "convert_cmd_args_list self game_name [] mpc_party server_ips =
     ([], Inl (Raised (ValueError ''Missing game_args or it's empty'')))"
  by (simp add: convert_cmd_args_list_def)

text \<open>
  C7. The role-to-party map sends the publisher role to the server party and the partner
  role to the client party; any other value fails with a \<open>ValueError\<close> whose message
  ends with the rendering of that value.
\<close>

text \<open>
  C5. For a non-empty \<open>game_args\<close>, a client call without \<open>server_ips\<close> fails with
  the \<open>ValueError\<close> for missing addresses and an empty log of resolver calls. A server
  call without \<open>server_ips\<close> succeeds whenever the resolver returns for every
  container, and every logged call carries no address.
\<close>

theorem client_without_server_ips:
  assumes "game_args \<noteq> []"
  shows "convert_cmd_args_list self game_name game_args CLIENT None =
           ([], Inl (Raised (ValueError ''Missing server_ips''))) \<and>
         ((\<forall>game_arg\<in>set game_args.
             \<not> isl (build_onedocker_args (mpc_game_svc self) game_name SERVER None game_arg)) \<longrightarrow>
          (\<exists>binary_name commands.
             convert_cmd_args_list self game_name game_args SERVER None =
               (map (\<lambda>game_arg. (game_name, SERVER, None, game_arg)) game_args,
                Inr (binary_name, commands))))"
proof (intro conjI impI)
  from assms show "convert_cmd_args_list self game_name game_args CLIENT None =
           ([], Inl (Raised (ValueError ''Missing server_ips'')))"
    by (simp add: convert_cmd_args_list_def py_not_def)
next
  let ?gs = "mpc_game_svc self"
  assume all: "\<forall>game_arg\<in>set game_args.
             \<not> isl (build_onedocker_args ?gs game_name SERVER None game_arg)"
  have ok: "\<forall>i<length game_args. resolves_at ?gs game_name game_args SERVER None i"
    using all by (simp add: resolves_at_def resolve_at_def address_at_def address_in_range_def)
  have calls: "map (call_at game_name game_args SERVER None) [0..<length game_args] =
               map (\<lambda>game_arg. (game_name, SERVER, None, game_arg)) game_args"
    by (rule nth_equalityI) (simp_all add: call_at_def address_at_def)
  from convert_success [OF assms _ ok] calls
  show "\<exists>binary_name commands.
             convert_cmd_args_list self game_name game_args SERVER None =
               (map (\<lambda>game_arg. (game_name, SERVER, None, game_arg)) game_args,
                Inr (binary_name, commands))"
    by simp
qed

theorem client_without_server_ips_witness:
  "two_containers \<noteq> [] \<and>
   convert_cmd_args_list example_service ''lift'' two_containers CLIENT None =
     ([], Inl (Raised (ValueError ''Missing server_ips''))) \<and>
   \<not> isl (example_build ''lift'' SERVER None (two_containers ! 0)) \<and>
   \<not> isl (example_build ''lift'' SERVER None (two_containers ! 1)) \<and>
   convert_cmd_args_list example_service ''lift'' two_containers SERVER None =
     ([(''lift'', SERVER, None, two_containers ! 0), (''lift'', SERVER, None, two_containers ! 1)],
      Inr (''lift'', [''--party --input_filenames=f1'',
                      ''--party --input_filenames=f2 --package=other'']))"
proof -
  have ne: "two_containers \<noteq> []" by (simp add: two_containers_def)
  have r: "\<not> isl (example_build ''lift'' SERVER None (two_containers ! 0))"
    "\<not> isl (example_build ''lift'' SERVER None (two_containers ! 1))"
    by (simp_all add: example_build_def two_containers_def)
  have s: "convert_cmd_args_list example_service ''lift'' two_containers SERVER None =
     ([(''lift'', SERVER, None, two_containers ! 0), (''lift'', SERVER, None, two_containers ! 1)],
      Inr (''lift'', [''--party --input_filenames=f1'',
                      ''--party --input_filenames=f2 --package=other'']))"
    by (simp add: example_defs two_containers_def)
  from client_without_server_ips [OF ne, of example_service "''lift''"] ne r s
  show ?thesis by simp
qed

text \<open>
  C6. When the guards pass, the containers before \<open>i\<close> resolve and the resolver
  raises \<open>x\<close> on container \<open>i\<close>, the call ends with exactly \<open>x\<close>, unmodified, and
  without a result. The log holds the calls for containers 0 to \<open>i\<close>, each once and in
  order: the failing call is not repeated and no later container is tried.
\<close>

theorem resolver_error_propagates:
  assumes "game_args \<noteq> []" and "\<not> (mpc_party = CLIENT \<and> py_not server_ips)"
    and "i < length game_args"
    and "\<forall>j<i. resolves_at (mpc_game_svc self) game_name game_args mpc_party server_ips j"
    and "address_in_range server_ips i"
    and "resolve_at (mpc_game_svc self) game_name game_args mpc_party server_ips i = Inl x"
  shows "convert_cmd_args_list self game_name game_args mpc_party server_ips =
           (map (call_at game_name game_args mpc_party server_ips) [0..<Suc i],
            Inl (Propagated x))"
proof -
  let ?gs = "mpc_game_svc self"
  from assms(4) have pre: "\<forall>j\<in>set [0..<i]. resolves_at ?gs game_name game_args mpc_party server_ips j"
    by simp
  have "convert_loop ?gs game_name game_args mpc_party server_ips [0..<length game_args] None [] [] =
        (map (call_at game_name game_args mpc_party server_ips) [0..<i]
           @ [call_at game_name game_args mpc_party server_ips i], Inl (Propagated x))"
    by (subst upt_split_at [OF assms(3)])
      (simp add: convert_loop_prefix [OF pre] convert_loop_fail_step [OF assms(3,5,6)]
        del: convert_loop.simps)
  with assms(1,2) show ?thesis by (simp add: convert_cmd_args_list_def)
qed

theorem resolver_error_propagates_witness:
  "failing_second \<noteq> [] \<and> (1::nat) < length failing_second \<and>
   resolves_at example_game_svc ''lift'' failing_second SERVER None 0 \<and>
   resolve_at example_game_svc ''lift'' failing_second SERVER None 1 = Inl ''unknown argument'' \<and>
   convert_cmd_args_list example_service ''lift'' failing_second SERVER None =
     ([(''lift'', SERVER, None, [(''input_filenames'', ''f1'')]),
       (''lift'', SERVER, None, [(''fail'', ''unknown argument'')])],
      Inl (Propagated ''unknown argument''))"
proof -
  have ne: "failing_second \<noteq> []" and i: "(1::nat) < length failing_second"
    by (simp_all add: failing_second_def)
  have guard: "\<not> (SERVER = CLIENT \<and> py_not None)" by simp
  have r0: "resolves_at example_game_svc ''lift'' failing_second SERVER None 0"
    by (simp add: resolves_at_def resolve_at_def address_at_def address_in_range_def
        example_game_svc_def example_build_def failing_second_def)
  then have pre: "\<forall>j<1. resolves_at (mpc_game_svc example_service) ''lift'' failing_second SERVER None j"
    by (simp add: example_service_def)
  have a: "address_in_range None 1" by (simp add: address_in_range_def)
  have r1: "resolve_at (mpc_game_svc example_service) ''lift'' failing_second SERVER None 1 =
      Inl ''unknown argument''"
    by (simp add: resolve_at_def address_at_def example_service_def example_game_svc_def
        example_build_def failing_second_def)
  from resolver_error_propagates [OF ne guard i pre a r1] ne i r0 r1
  show ?thesis
    by (simp add: example_service_def call_at_def address_at_def failing_second_def upt_rec)
qed

text \<open>
  C7. The role-to-party map sends the publisher role to the server party and the partner
  role to the client party; any other value fails with a \<open>ValueError\<close> whose message
  ends with the rendering of that value.
\<close>

theorem role_to_party_map:
  "map_private_computation_role_to_mpc_party PUBLISHER = Inr SERVER \<and>
   map_private_computation_role_to_mpc_party PARTNER = Inr CLIENT \<and>
   map_private_computation_role_to_mpc_party (OtherValue s) =
     Inl (ValueError (''No mpc party defined for '' @ s))"
  by simp

text \<open>
  C8, as stated, asks that construction fails when the task definition is absent. The
  constructor tests \<open>container_svc\<close> and \<open>mpc_game_svc\<close> only: with both present and
  no task definition it goes on to build the \<open>OneDockerService\<close> and, when that
  returns, yields a service whose task definition is \<open>None\<close>.
\<close>

theorem init_task_definition_counterexample:
  "MPCService_init example_onedocker container_str game_svc_str
     (Some ''ecs'') None (Some example_game_svc) =
   Inr \<lparr>container_svc = ''ecs'', task_definition = None,
        mpc_game_svc = example_game_svc, onedocker_svc = (''ecs'', None)\<rparr>"
  by (simp add: MPCService_init_def example_onedocker_def)

text \<open>
  C8, amended. Construction fails with the \<open>ValueError\<close> for a missing dependency
  exactly on the grounds of \<open>container_svc\<close> or \<open>mpc_game_svc\<close> being absent. With both
  present the task definition, absent or not, is handed unchanged with the container
  service to the \<open>OneDockerService\<close> constructor, whose outcome decides the result.
\<close>

theorem init_validates_dependencies:
  "(container_svc_arg = None \<or> mpc_game_svc_arg = None \<longrightarrow>
      MPCService_init mk_onedocker str_cs str_gs container_svc_arg task_definition_arg
        mpc_game_svc_arg =
      Inl (Raised (ValueError
        (''Dependency is missing. container_svc='' @ py_str str_cs container_svc_arg
          @ '', mpc_game_svc='' @ py_str str_gs mpc_game_svc_arg)))) \<and>
   (container_svc_arg = Some cs \<and> mpc_game_svc_arg = Some gs \<longrightarrow>
      MPCService_init mk_onedocker str_cs str_gs container_svc_arg task_definition_arg
        mpc_game_svc_arg =
      (case mk_onedocker cs task_definition_arg of
         Inl x \<Rightarrow> Inl (Propagated x)
       | Inr od \<Rightarrow> Inr \<lparr>container_svc = cs, task_definition = task_definition_arg,
                         mpc_game_svc = gs, onedocker_svc = od\<rparr>))"
  by (auto simp: MPCService_init_def split: sum.splits)

theorem init_validates_dependencies_witness:
  "MPCService_init example_onedocker container_str game_svc_str
     None (Some ''task'') (Some example_game_svc) =
     Inl (Raised (ValueError
       ''Dependency is missing. container_svc=None, mpc_game_svc=MPCGameService'')) \<and>
   MPCService_init example_onedocker container_str game_svc_str
     (Some ''ecs'') (Some ''task'') None =
     Inl (Raised (ValueError ''Dependency is missing. container_svc=ecs, mpc_game_svc=None'')) \<and>
   MPCService_init example_onedocker container_str game_svc_str
     (Some ''ecs'') (Some ''task'') (Some example_game_svc) = Inr example_service"
  using
    init_validates_dependencies [of None "Some example_game_svc" example_onedocker container_str
      game_svc_str "Some ''task''" "''ecs''" example_game_svc]
    init_validates_dependencies [of "Some ''ecs''" None example_onedocker container_str
      game_svc_str "Some ''task''" "''ecs''" example_game_svc]
    init_validates_dependencies [of "Some ''ecs''" "Some example_game_svc" example_onedocker
      container_str game_svc_str "Some ''task''" "''ecs''" example_game_svc]
  by (simp add: py_str_def container_str_def game_svc_str_def example_onedocker_def
      example_service_def)

text \<open>
  C9. For a non-empty \<open>game_args\<close>, whenever the loop runs to its end (every resolver
  call has returned, hence returned a package name) \<open>binary_name\<close> is set; so the
  method never ends with the \<open>ValueError\<close> of the check that follows the loop.
\<close>

theorem binary_name_set_after_loop:
  assumes "game_args \<noteq> []"
  shows "(\<forall>calls binary_name commands.
            convert_loop (mpc_game_svc self) game_name game_args mpc_party server_ips
              [0..<length game_args] None [] [] = (calls, Inr (binary_name, commands)) \<longrightarrow>
            binary_name \<noteq> None) \<and>
         snd (convert_cmd_args_list self game_name game_args mpc_party server_ips) \<noteq>
           Inl (Raised (ValueError ''Can't get binary_name from game_args''))"
proof -
  let ?gs = "mpc_game_svc self"
  let ?loop = "convert_loop ?gs game_name game_args mpc_party server_ips
              [0..<length game_args] None [] []"
  have set: "binary_name \<noteq> None" if res: "?loop = (calls, Inr (binary_name, commands))"
    for calls binary_name commands
  proof -
    from convert_loop_Inr_D [OF res]
    have all: "\<forall>i\<in>set [0..<length game_args].
                 resolves_at ?gs game_name game_args mpc_party server_ips i" .
    from assms have hd: "[0..<length game_args] = 0 # [1..<length game_args]"
      by (simp add: upt_conv_Cons)
    have "binary_after ?gs game_name game_args mpc_party server_ips None [0..<length game_args]
            \<noteq> None"
      by (subst hd) (simp add: binary_after_def)
    with convert_loop_prefix [OF all, of "[]" None "[]" "[]"] res show ?thesis by simp
  qed
  have "snd (convert_cmd_args_list self game_name game_args mpc_party server_ips) \<noteq>
           Inl (Raised (ValueError ''Can't get binary_name from game_args''))"
  proof (cases "mpc_party = CLIENT \<and> py_not server_ips")
    case True
    with assms show ?thesis by (simp add: convert_cmd_args_list_def)
  next
    case False
    obtain calls r where l: "?loop = (calls, r)" by (cases ?loop)
    show ?thesis
    proof (cases r)
      case (Inl e)
      with l convert_loop_Inl_D [of ?gs game_name game_args mpc_party server_ips
          "[0..<length game_args]" None "[]" "[]" calls e] assms False
      show ?thesis by (simp add: convert_cmd_args_list_def)
    next
      case (Inr st)
      obtain bn cmds where st: "st = (bn, cmds)" by (cases st)
      with l Inr set have "bn \<noteq> None" by simp
      then obtain b where "bn = Some b" by auto
      with l Inr st assms False show ?thesis by (simp add: convert_cmd_args_list_def)
    qed
  qed
  with set show ?thesis by blast
qed

theorem binary_name_set_after_loop_witness:
  "two_containers \<noteq> [] \<and>
   convert_loop example_game_svc ''lift'' two_containers SERVER None
     [0..<length two_containers] None [] [] =
     ([(''lift'', SERVER, None, two_containers ! 0), (''lift'', SERVER, None, two_containers ! 1)],
      Inr (Some ''lift'', [''--party --input_filenames=f1'',
                      ''--party --input_filenames=f2 --package=other''])) \<and>
   Some ''lift'' \<noteq> (None :: string option) \<and>
   snd (convert_cmd_args_list example_service ''lift'' two_containers SERVER None) =
     Inr (''lift'', [''--party --input_filenames=f1'',
                      ''--party --input_filenames=f2 --package=other''])"
proof -
  have ne: "two_containers \<noteq> []" by (simp add: two_containers_def)
  have l: "convert_loop example_game_svc ''lift'' two_containers SERVER None
     [0..<length two_containers] None [] [] =
     ([(''lift'', SERVER, None, two_containers ! 0), (''lift'', SERVER, None, two_containers ! 1)],
      Inr (Some ''lift'', [''--party --input_filenames=f1'',
                      ''--party --input_filenames=f2 --package=other'']))"
    by (simp add: example_defs two_containers_def)
  have s: "snd (convert_cmd_args_list example_service ''lift'' two_containers SERVER None) =
     Inr (''lift'', [''--party --input_filenames=f1'',
                      ''--party --input_filenames=f2 --package=other''])"
    by (simp add: example_defs two_containers_def)
  from binary_name_set_after_loop [OF ne, of example_service "''lift''" SERVER None] ne l s
  show ?thesis by simp
qed

text \<open>
  C10. For a non-empty \<open>game_args\<close>, a client call with an empty, non-null
  \<open>server_ips\<close> list fails with the same \<open>ValueError\<close> for missing addresses as a
  call with no \<open>server_ips\<close>, and with an empty log of resolver calls: the guard tests
  the emptiness of \<open>server_ips\<close>, not only its presence.
\<close>

theorem client_with_empty_server_ips:
  assumes "game_args \<noteq> []"
  shows "convert_cmd_args_list self game_name game_args CLIENT (Some []) =
           ([], Inl (Raised (ValueError ''Missing server_ips''))) \<and>
         convert_cmd_args_list self game_name game_args CLIENT (Some []) =
           convert_cmd_args_list self game_name game_args CLIENT None"
  using assms by (simp add: convert_cmd_args_list_def py_not_def)

theorem client_with_empty_server_ips_witness:
  "two_containers \<noteq> [] \<and>
   convert_cmd_args_list example_service ''lift'' two_containers CLIENT (Some []) =
     ([], Inl (Raised (ValueError ''Missing server_ips'')))  \<and>
   convert_cmd_args_list example_service ''lift'' two_containers CLIENT None =
     ([], Inl (Raised (ValueError ''Missing server_ips'')))"
proof -
  have ne: "two_containers \<noteq> []" by (simp add: two_containers_def)
  from client_with_empty_server_ips [OF ne, of example_service "''lift''"] ne
  show ?thesis by auto
qed

end
